theory Spec2Isabelle
  imports Complex_Main "HOL-Library.Word" "HOL-Library.Log_Nat"
begin

unbundle bit_operations_syntax

section \<open>Data model of transparent-while-moving.wh.cpp\<close>

text \<open>
  Window handles and timer handles are opaque identities. A nullable handle
  (\<open>HANDLE hTimer = nullptr\<close>) is an option: \<open>None\<close> is \<open>nullptr\<close>.
\<close>

type_synonym HWND = nat
type_synonym HANDLE = nat
type_synonym BYTE = "8 word"
type_synonym ULONGLONG = "64 word"
type_synonym LONG_PTR = "64 word"
type_synonym cint = "32 word"

text \<open>\<open>struct WinAnim\<close>, with its default member initialisers as \<open>WinAnim_default\<close>.\<close>

record WinAnim =
  active :: bool
  startAlpha :: BYTE
  targetAlpha :: BYTE
  startTick :: ULONGLONG
  durationMs :: cint
  lastApplied :: BYTE
  hTimer :: "HANDLE option"

definition WinAnim_default :: WinAnim where
  "WinAnim_default =
     \<lparr>active = False, startAlpha = 255, targetAlpha = 255, startTick = 0,
      durationMs = 0, lastApplied = 255, hTimer = None\<rparr>"

text \<open>
  The state the code reads and writes: its own globals (\<open>g_anim\<close>, \<open>g_timerQueue\<close>,
  the settings), and the part of the windowing system and of the timer facility it
  calls into: liveness of a window (\<open>IsWindow\<close>), the extended style word
  (\<open>GWL_EXSTYLE\<close>), the alpha last given to \<open>SetLayeredWindowAttributes\<close>, the root
  ancestor (\<open>GetAncestor(_, GA_ROOT)\<close>, \<open>None\<close> for a null result), the timer-queue
  timers that are scheduled (handle to callback context), and \<open>GetTickCount64\<close>.
\<close>

record world =
  g_anim :: "HWND \<rightharpoonup> WinAnim"
  g_timerQueue :: "HANDLE option"
  g_enabled :: bool
  g_targetOpacity :: cint
  g_fadeMs :: cint
  is_window :: "HWND \<Rightarrow> bool"
  exstyle :: "HWND \<Rightarrow> LONG_PTR"
  alpha :: "HWND \<Rightarrow> BYTE option"
  root_of :: "HWND \<Rightarrow> HWND option"
  timers :: "HANDLE \<rightharpoonup> HWND"
  tick_count :: ULONGLONG

text \<open>
  What the operating system answers when \<open>StartFade\<close> asks for a timer queue and for
  a timer: the new handle, or \<open>None\<close> when the call fails. A failed
  \<open>CreateTimerQueueTimer\<close> leaves \<open>*phNewTimer\<close> as it was.
\<close>

record os_reply =
  queue_reply :: "HANDLE option"
  timer_reply :: "HANDLE option"

section \<open>Binary64 arithmetic\<close>

text \<open>
  The tick callback computes in \<open>double\<close>. A finite double is a rational; every
  operation is the exact operation followed by rounding to the nearest double, ties to
  the even significand (53 bits, gradual underflow below \<open>2 powi - 1022\<close>). No value of
  the callback comes near the overflow threshold.
\<close>

definition ilog2 :: "rat \<Rightarrow> int" where
  "ilog2 q = (let k = bitlen (fst (quotient_of q)) - bitlen (snd (quotient_of q))
              in if 2 powi k \<le> q then k else k - 1)"

definition rne :: "rat \<Rightarrow> int" where
  "rne q = (let f = \<lfloor>q\<rfloor>; r = q - of_int f
            in if r < 1 / 2 then f
               else if 1 / 2 < r then f + 1
               else if even f then f else f + 1)"

definition to_double :: "rat \<Rightarrow> rat" where
  "to_double q = (if q = 0 then 0
                  else let e = max (ilog2 \<bar>q\<bar>) (- 1022) - 52
                       in of_int (rne (q / 2 powi e)) * 2 powi e)"

definition dadd :: "rat \<Rightarrow> rat \<Rightarrow> rat" where
  "dadd a b = to_double (a + b)"

definition dsub :: "rat \<Rightarrow> rat \<Rightarrow> rat" where
  "dsub a b = to_double (a - b)"

definition dmul :: "rat \<Rightarrow> rat \<Rightarrow> rat" where
  "dmul a b = to_double (a * b)"

definition ddiv :: "rat \<Rightarrow> rat \<Rightarrow> rat" where
  "ddiv a b = to_double (a / b)"

text \<open>\<open>(double)n\<close> for an integer, and \<open>(int)x\<close>, which truncates towards zero.\<close>

definition double_of_int :: "int \<Rightarrow> rat" where
  "double_of_int n = to_double (of_int n)"

definition int_of_double :: "rat \<Rightarrow> int" where
  "int_of_double x = (if 0 \<le> x then \<lfloor>x\<rfloor> else \<lceil>x\<rceil>)"

section \<open>Helpers\<close>

definition WS_EX_LAYERED :: LONG_PTR where
  "WS_EX_LAYERED = 0x00080000"

definition GetWindowLongPtrW :: "world \<Rightarrow> HWND \<Rightarrow> LONG_PTR" where
  "GetWindowLongPtrW s hwnd = exstyle s hwnd"

definition SetWindowLongPtrW :: "HWND \<Rightarrow> LONG_PTR \<Rightarrow> world \<Rightarrow> world" where
  "SetWindowLongPtrW hwnd v s = s\<lparr>exstyle := (exstyle s)(hwnd := v)\<rparr>"

definition SetLayeredWindowAttributes :: "HWND \<Rightarrow> BYTE \<Rightarrow> world \<Rightarrow> world" where
  "SetLayeredWindowAttributes hwnd a s = s\<lparr>alpha := (alpha s)(hwnd \<mapsto> a)\<rparr>"

definition DeleteTimerQueueTimer :: "HANDLE \<Rightarrow> world \<Rightarrow> world" where
  "DeleteTimerQueueTimer h s = s\<lparr>timers := (timers s)(h := None)\<rparr>"

definition SetLayered :: "HWND \<Rightarrow> bool \<Rightarrow> world \<Rightarrow> world" where
  "SetLayered hwnd on s =
     (let ex = GetWindowLongPtrW s hwnd
      in if on then
           (if ex AND WS_EX_LAYERED = 0
            then SetWindowLongPtrW hwnd (ex OR WS_EX_LAYERED) s else s)
         else
           (if ex AND WS_EX_LAYERED \<noteq> 0
            then SetWindowLongPtrW hwnd (ex AND NOT WS_EX_LAYERED) s else s))"

text \<open>
  \<open>g_anim[hwnd]\<close>: the record of the window, default-constructed when the table has
  none. \<open>upd_anim\<close> is a write through that reference.
\<close>

definition anim_at :: "world \<Rightarrow> HWND \<Rightarrow> WinAnim" where
  "anim_at s hwnd = (case g_anim s hwnd of None \<Rightarrow> WinAnim_default | Some st \<Rightarrow> st)"

definition upd_anim :: "HWND \<Rightarrow> (WinAnim \<Rightarrow> WinAnim) \<Rightarrow> world \<Rightarrow> world" where
  "upd_anim hwnd f s = s\<lparr>g_anim := (g_anim s)(hwnd \<mapsto> f (anim_at s hwnd))\<rparr>"

definition ApplyAlphaRemember :: "HWND \<Rightarrow> BYTE \<Rightarrow> world \<Rightarrow> world" where
  "ApplyAlphaRemember hwnd a s =
     upd_anim hwnd (\<lambda>st. st\<lparr>lastApplied := a\<rparr>)
       (SetLayeredWindowAttributes hwnd a (SetLayered hwnd True s))"

definition ClampByte :: "int \<Rightarrow> BYTE" where
  "ClampByte v = word_of_int (min 255 (max 0 v))"

section \<open>Animation\<close>

text \<open>The elapsed fraction \<open>t\<close> and the opacity \<open>a\<close> of one tick, as the callback computes them.\<close>

definition tick_t :: "ULONGLONG \<Rightarrow> WinAnim \<Rightarrow> rat" where
  "tick_t now st =
     (if 0 < sint (durationMs st)
      then min 1 (ddiv (double_of_int (uint (now - startTick st)))
                       (double_of_int (sint (durationMs st))))
      else 1)"

definition tick_alpha :: "ULONGLONG \<Rightarrow> WinAnim \<Rightarrow> BYTE" where
  "tick_alpha now st =
     (let t = tick_t now st;
          v = dadd (dmul (dsub 1 t) (double_of_int (uint (startAlpha st))))
                   (dmul t (double_of_int (uint (targetAlpha st))))
      in ClampByte (int_of_double (dadd v (1 / 2))))"

definition FadeTickCb :: "HWND \<Rightarrow> world \<Rightarrow> world" where
  "FadeTickCb hwnd s =
     (if \<not> is_window s hwnd then s
      else case g_anim s hwnd of
        None \<Rightarrow> s
      | Some st \<Rightarrow>
          if \<not> active st then s
          else
            let now = tick_count s;
                t = tick_t now st;
                a = tick_alpha now st;
                s1 = ApplyAlphaRemember hwnd a s
            in if 1 \<le> t then
                 let s2 = upd_anim hwnd (\<lambda>st. st\<lparr>hTimer := None, active := False\<rparr>) s1;
                     s3 = (case hTimer st of None \<Rightarrow> s2
                           | Some h \<Rightarrow> DeleteTimerQueueTimer h s2)
                 in if targetAlpha st = 255
                    then upd_anim hwnd (\<lambda>st. st\<lparr>lastApplied := 255\<rparr>) (SetLayered hwnd False s3)
                    else s3
               else s1)"

definition StopFade :: "HWND \<Rightarrow> bool \<Rightarrow> world \<Rightarrow> world" where
  "StopFade hwnd forceToTarget s =
     (case g_anim s hwnd of
        None \<Rightarrow> s
      | Some st \<Rightarrow>
          let s1 = upd_anim hwnd (\<lambda>st. st\<lparr>hTimer := None, active := False\<rparr>) s;
              s2 = (case hTimer st of None \<Rightarrow> s1 | Some h \<Rightarrow> DeleteTimerQueueTimer h s1);
              s3 = (if forceToTarget then ApplyAlphaRemember hwnd (targetAlpha st) s2 else s2)
          in if targetAlpha st = 255
             then upd_anim hwnd (\<lambda>st. st\<lparr>lastApplied := 255\<rparr>) (SetLayered hwnd False s3)
             else s3)"

definition StartFade :: "os_reply \<Rightarrow> HWND \<Rightarrow> BYTE \<Rightarrow> cint \<Rightarrow> world \<Rightarrow> world" where
  "StartFade r hwnd tgt durMs s =
     (let st0 = anim_at s hwnd;
          s0 = upd_anim hwnd (\<lambda>st. st) s;
          s1 = (case hTimer st0 of None \<Rightarrow> s0
                | Some h \<Rightarrow> upd_anim hwnd (\<lambda>st. st\<lparr>hTimer := None\<rparr>) (DeleteTimerQueueTimer h s0));
          dur = (if sint durMs < 0 then 0 else durMs);
          s2 = upd_anim hwnd
                 (\<lambda>st. st\<lparr>startAlpha := lastApplied st, targetAlpha := tgt,
                        startTick := tick_count s1, durationMs := dur, active := True\<rparr>) s1
      in if dur = 0 \<or> lastApplied st0 = tgt then
           let s3 = upd_anim hwnd (\<lambda>st. st\<lparr>active := False\<rparr>) (ApplyAlphaRemember hwnd tgt s2)
           in if tgt = 255
              then upd_anim hwnd (\<lambda>st. st\<lparr>lastApplied := 255\<rparr>) (SetLayered hwnd False s3)
              else s3
         else
           let s3 = SetLayered hwnd True s2;
               s4 = (if g_timerQueue s3 = None then s3\<lparr>g_timerQueue := queue_reply r\<rparr> else s3)
           in case timer_reply r of
                None \<Rightarrow> s4
              | Some h \<Rightarrow> upd_anim hwnd (\<lambda>st. st\<lparr>hTimer := Some h\<rparr>) (s4\<lparr>timers := (timers s4)(h \<mapsto> hwnd)\<rparr>))"

section \<open>Hook\<close>

datatype Msg =
    WM_ENTERSIZEMOVE | WM_EXITSIZEMOVE | WM_CAPTURECHANGED | WM_CANCELMODE
  | WM_NCLBUTTONUP | WM_DESTROY | WM_NCDESTROY | WM_OTHER

definition HTCAPTION :: "64 word" where
  "HTCAPTION = 2"

text \<open>
  The effect of the hook on the state; its return value is that of the original
  \<open>DefWindowProcW\<close> in every branch.
\<close>

definition DefWindowProcW_Hook :: "os_reply \<Rightarrow> HWND \<Rightarrow> Msg \<Rightarrow> 64 word \<Rightarrow> world \<Rightarrow> world" where
  "DefWindowProcW_Hook r hWnd msg wParam s =
     (if \<not> g_enabled s then s
      else
        let root = (case root_of s hWnd of None \<Rightarrow> hWnd | Some w \<Rightarrow> w)
        in case msg of
             WM_ENTERSIZEMOVE \<Rightarrow> StartFade r root (ucast (g_targetOpacity s)) (g_fadeMs s) s
           | WM_EXITSIZEMOVE \<Rightarrow> StartFade r root 255 (g_fadeMs s) s
           | WM_CAPTURECHANGED \<Rightarrow> StartFade r root 255 (g_fadeMs s) s
           | WM_CANCELMODE \<Rightarrow> StartFade r root 255 (g_fadeMs s) s
           | WM_NCLBUTTONUP \<Rightarrow>
               (if wParam = HTCAPTION then StartFade r root 255 (g_fadeMs s) s else s)
           | WM_DESTROY \<Rightarrow>
               (let s1 = SetLayered root False (ApplyAlphaRemember root 255 (StopFade root False s))
                in s1\<lparr>g_anim := (g_anim s1)(root := None)\<rparr>)
           | WM_NCDESTROY \<Rightarrow>
               (let s1 = SetLayered root False (ApplyAlphaRemember root 255 (StopFade root False s))
                in s1\<lparr>g_anim := (g_anim s1)(root := None)\<rparr>)
           | WM_OTHER \<Rightarrow> s)"

section \<open>Concrete states\<close>

text \<open>
  The state of a freshly loaded mod with its default settings (\<open>g_targetOpacity = 180\<close>,
  \<open>g_fadeMs = 120\<close>, enabled), no window animated yet and every window alive, opaque and
  top-level.
\<close>

definition world0 :: world where
  "world0 =
     \<lparr>g_anim = Map.empty, g_timerQueue = None, g_enabled = True, g_targetOpacity = 180,
      g_fadeMs = 120, is_window = (\<lambda>_. True), exstyle = (\<lambda>_. 0), alpha = (\<lambda>_. None),
      root_of = (\<lambda>_. None), timers = Map.empty, tick_count = 0\<rparr>"

text \<open>The operating system grants the timer \<open>h\<close>, or refuses to create one.\<close>

definition granted :: "HANDLE \<Rightarrow> os_reply" where
  "granted h = \<lparr>queue_reply = Some 1, timer_reply = Some h\<rparr>"

definition refused :: os_reply where
  "refused = \<lparr>queue_reply = Some 1, timer_reply = None\<rparr>"

text \<open>
  Window 3 halfway through a fade from 255 to 120 over 100 ms: the fade starts at tick
  count 0 and its timer fires once at tick count 50.
\<close>

definition mid_fade :: world where
  "mid_fade = FadeTickCb 3 ((StartFade (granted 7) 3 120 100 world0)\<lparr>tick_count := 50\<rparr>)"

text \<open>
  Window 3 at rest at the drag opacity: the fade from 255 to 180 over 120 ms has run
  to its end, as after \<open>WM_ENTERSIZEMOVE\<close> with the default settings.
\<close>

definition dimmed :: world where
  "dimmed = FadeTickCb 3 ((StartFade (granted 7) 3 180 120 world0)\<lparr>tick_count := 120\<rparr>)"

section \<open>Runs of the fade operations\<close>

text \<open>
  The states that sequences of \<open>StartFade\<close>, tick and \<open>StopFade\<close> calls reach from a
  state with an empty table, for any windows and arguments, while time passes and
  windows come and go. \<open>P\<close> says which answers of the operating system the run may
  meet.
\<close>

inductive reach :: "(os_reply \<Rightarrow> bool) \<Rightarrow> world \<Rightarrow> bool" for P where
  reach_init: "g_anim s = Map.empty \<Longrightarrow> reach P s"
| reach_start: "reach P s \<Longrightarrow> P r \<Longrightarrow> reach P (StartFade r hwnd tgt durMs s)"
| reach_tick: "reach P s \<Longrightarrow> reach P (FadeTickCb hwnd s)"
| reach_stop: "reach P s \<Longrightarrow> reach P (StopFade hwnd forceToTarget s)"
| reach_env: "reach P s \<Longrightarrow> reach P (s\<lparr>tick_count := now, is_window := alive\<rparr>)"

text \<open>Every answer is possible; or every timer asked for is granted.\<close>

definition reachable :: "world \<Rightarrow> bool" where
  "reachable = reach (\<lambda>r. True)"

definition reachable_granted :: "world \<Rightarrow> bool" where
  "reachable_granted = reach (\<lambda>r. timer_reply r \<noteq> None)"

text \<open>The invariant of the data model: a tick handle is there exactly while the record is active.\<close>

definition handle_iff_active :: "world \<Rightarrow> bool" where
  "handle_iff_active s = (\<forall>hwnd st. g_anim s hwnd = Some st \<longrightarrow> (hTimer st \<noteq> None \<longleftrightarrow> active st))"

section \<open>The translucency bit\<close>

lemma WS_EX_LAYERED_bit: "WS_EX_LAYERED = (2 ^ 19 :: LONG_PTR)"
  by (simp add: WS_EX_LAYERED_def)

lemma or_exp_absorb: "bit (ex :: 'a::len word) n \<Longrightarrow> ex OR 2 ^ n = ex"
  by (rule bit_word_eqI) (auto simp: bit_or_iff bit_exp_iff)

lemma layered_or_absorb:
  "(ex :: LONG_PTR) AND WS_EX_LAYERED \<noteq> 0 \<Longrightarrow> ex OR WS_EX_LAYERED = ex"
  unfolding WS_EX_LAYERED_bit and_exp_eq_0_iff_not_bit
  by (simp only: not_not or_exp_absorb)

lemma layered_set: "((ex :: LONG_PTR) OR WS_EX_LAYERED) AND WS_EX_LAYERED \<noteq> 0"
  unfolding WS_EX_LAYERED_bit and_exp_eq_0_iff_not_bit
  by (simp only: bit_or_iff bit_exp_iff) simp

lemma layered_clear: "((ex :: LONG_PTR) AND NOT WS_EX_LAYERED) AND WS_EX_LAYERED = 0"
  by (simp add: and.assoc)

lemma and_not_exp_absorb: "\<not> bit (ex :: 'a::len word) n \<Longrightarrow> ex AND NOT (2 ^ n) = ex"
  by (rule bit_word_eqI) (auto simp: bit_and_iff bit_not_iff bit_exp_iff)

lemma layered_and_not:
  "(ex :: LONG_PTR) AND WS_EX_LAYERED = 0 \<Longrightarrow> ex AND NOT WS_EX_LAYERED = ex"
  unfolding WS_EX_LAYERED_bit and_exp_eq_0_iff_not_bit
  by (rule and_not_exp_absorb)

text \<open>Either branch of \<open>SetLayered\<close> leaves the style word with the bit as asked.\<close>

lemma SetLayered_eq:
  "SetLayered hwnd on s =
     s\<lparr>exstyle := (exstyle s)(hwnd := (if on then exstyle s hwnd OR WS_EX_LAYERED
                                         else exstyle s hwnd AND NOT WS_EX_LAYERED))\<rparr>"
  by (simp add: SetLayered_def GetWindowLongPtrW_def SetWindowLongPtrW_def Let_def
      layered_or_absorb layered_and_not)

section \<open>Unfolding the operations\<close>

lemmas ops_defs = StartFade_def StopFade_def FadeTickCb_def ApplyAlphaRemember_def
  upd_anim_def anim_at_def SetLayeredWindowAttributes_def DeleteTimerQueueTimer_def
  SetLayered_eq Let_def

lemma mid_fade_record:
  "g_anim mid_fade 3 =
     Some \<lparr>active = True, startAlpha = 255, targetAlpha = 120, startTick = 0,
           durationMs = 100, lastApplied = 188, hTimer = Some 7\<rparr>"
  by code_simp

section \<open>Ghost ticks\<close>

text \<open>
  Claim C2. A tick whose window no longer exists, or whose Animation Record is missing
  from the table, or whose record is not active, changes nothing: the callback returns
  the state it was given, so no global, no window attribute and no timer is touched.
\<close>

theorem FadeTickCb_ghost_noop:
  assumes "\<not> is_window s hwnd \<or> g_anim s hwnd = None
           \<or> (\<exists>st. g_anim s hwnd = Some st \<and> \<not> active st)"
  shows "FadeTickCb hwnd s = s"
  using assms by (auto simp: FadeTickCb_def)

text \<open>
  Witness: the fade of \<open>mid_fade\<close> is stopped, which cancels its timer and leaves the
  record inactive; the cancelled timer's callback then runs once more.
\<close>

theorem FadeTickCb_ghost_noop_witness:
  "g_anim (StopFade 3 False mid_fade) 3 =
     Some \<lparr>active = False, startAlpha = 255, targetAlpha = 120, startTick = 0,
           durationMs = 100, lastApplied = 188, hTimer = None\<rparr>
   \<and> FadeTickCb 3 (StopFade 3 False mid_fade) = StopFade 3 False mid_fade"
proof -
  have rec: "g_anim (StopFade 3 False mid_fade) 3 =
     Some \<lparr>active = False, startAlpha = 255, targetAlpha = 120, startTick = 0,
           durationMs = 100, lastApplied = 188, hTimer = None\<rparr>"
    by code_simp
  then have "\<exists>st. g_anim (StopFade 3 False mid_fade) 3 = Some st \<and> \<not> active st"
    by simp
  then show ?thesis
    using rec FadeTickCb_ghost_noop [of "StopFade 3 False mid_fade" 3] by blast
qed

section \<open>Starting a fade\<close>

text \<open>
  Claim C3. When the window already has an Animation Record, the fade that
  \<open>StartFade\<close> sets up starts at the record's \<open>lastApplied\<close> as it was at the call, the
  opacity last written, whatever the target of the previous fade was.
\<close>

theorem StartFade_startAlpha:
  assumes "g_anim s hwnd = Some st"
  shows "\<exists>st'. g_anim (StartFade r hwnd tgt durMs s) hwnd = Some st'
               \<and> startAlpha st' = lastApplied st"
  using assms by (auto simp: ops_defs split: option.splits)

text \<open>
  Witness: the fade from 255 to 120 is reversed at its middle, where 188 was applied
  last; the new fade starts at 188, not at 255 or 120.
\<close>

theorem StartFade_startAlpha_witness:
  "\<exists>st'. g_anim (StartFade (granted 8) 3 255 100 mid_fade) 3 = Some st' \<and> startAlpha st' = 188"
  by (rule StartFade_startAlpha [OF mid_fade_record, of "granted 8" 255 100,
        simplified WinAnim.simps])

text \<open>
  Claim C10. For a window with no Animation Record, \<open>g_anim[hwnd]\<close> is the
  default-constructed record, whose \<open>lastApplied\<close> is 255; the first \<open>StartFade\<close> stores a
  record made from it, so the first fade starts at opacity 255. The record it leaves
  is the default one with the fade's target, start tick and duration, and either the
  target applied at once (no duration, or target 255) or the fade active with the
  timer the system gave.
\<close>

theorem StartFade_first_record:
  assumes "g_anim s hwnd = None"
  shows "anim_at s hwnd = WinAnim_default \<and> lastApplied (anim_at s hwnd) = 255
         \<and> (\<exists>st'. g_anim (StartFade r hwnd tgt durMs s) hwnd = Some st'
                 \<and> startAlpha st' = 255
                 \<and> st' = (if sint durMs \<le> 0 \<or> tgt = 255
                          then WinAnim_default\<lparr>targetAlpha := tgt, startTick := tick_count s,
                                 durationMs := (if sint durMs < 0 then 0 else durMs),
                                 lastApplied := tgt\<rparr>
                          else WinAnim_default\<lparr>targetAlpha := tgt, startTick := tick_count s,
                                 durationMs := durMs, active := True,
                                 hTimer := timer_reply r\<rparr>))"
  using assms
  by (auto simp: ops_defs WinAnim_default_def signed_eq_0_iff split: option.splits)

text \<open>Witness: the first fade of window 3 in a fresh state.\<close>

theorem StartFade_first_record_witness:
  "g_anim world0 3 = None
   \<and> (\<exists>st'. g_anim (StartFade (granted 7) 3 120 100 world0) 3 = Some st'
           \<and> startAlpha st' = 255 \<and> lastApplied st' = 255 \<and> active st')"
proof -
  have h: "g_anim world0 3 = None"
    by (simp add: world0_def)
  show ?thesis
    using h StartFade_first_record [OF h, of "granted 7" 120 100]
    by (auto simp: WinAnim_default_def)
qed

lemma WS_EX_LAYERED_nonzero: "WS_EX_LAYERED \<noteq> 0"
  by (simp add: WS_EX_LAYERED_def)

lemma dimmed_record:
  "g_anim dimmed 3 =
     Some \<lparr>active = False, startAlpha = 255, targetAlpha = 180, startTick = 0,
           durationMs = 120, lastApplied = 180, hTimer = None\<rparr>"
  by code_simp

text \<open>
  Claim C4. When the duration is zero (or negative, which \<open>StartFade\<close> raises to zero)
  or the last applied opacity already is the target, \<open>StartFade\<close> applies the target
  before it returns and leaves the record inactive with no tick handle; no timer is
  created (the scheduled timers are the former ones less the one cancelled, the
  timer queue is not touched and the answer of the operating system is never looked
  at); and for target 255 the translucency bit is cleared.
\<close>

theorem StartFade_fast_path:
  assumes "sint durMs \<le> 0 \<or> lastApplied (anim_at s hwnd) = tgt"
  shows "alpha (StartFade r hwnd tgt durMs s) hwnd = Some tgt
         \<and> (\<exists>st'. g_anim (StartFade r hwnd tgt durMs s) hwnd = Some st'
                 \<and> \<not> active st' \<and> hTimer st' = None \<and> lastApplied st' = tgt)
         \<and> timers (StartFade r hwnd tgt durMs s) =
             (case hTimer (anim_at s hwnd) of None \<Rightarrow> timers s | Some h \<Rightarrow> (timers s)(h := None))
         \<and> g_timerQueue (StartFade r hwnd tgt durMs s) = g_timerQueue s
         \<and> StartFade r hwnd tgt durMs s = StartFade r' hwnd tgt durMs s
         \<and> (tgt = 255 \<longrightarrow> exstyle (StartFade r hwnd tgt durMs s) hwnd AND WS_EX_LAYERED = 0)"
proof -
  let ?dur = "if sint durMs < 0 then 0 else durMs"
  have fast: "(?dur = 0 \<or> lastApplied (anim_at s hwnd) = tgt) = True"
    using assms by (auto simp: signed_eq_0_iff)
  note defs = ApplyAlphaRemember_def upd_anim_def anim_at_def SetLayeredWindowAttributes_def
          DeleteTimerQueueTimer_def SetLayered_eq layered_clear
  show ?thesis
  proof (cases "hTimer (anim_at s hwnd)")
    case None
    then show ?thesis
      unfolding StartFade_def Let_def fast
      by (simp add: defs)
  next
    case (Some h)
    then show ?thesis
      unfolding StartFade_def Let_def fast
      by (simp add: defs)
  qed
qed

text \<open>Witness: \<open>StartFade(window, 120, 0)\<close> in a fresh state, with no timer to be had.\<close>

theorem StartFade_fast_path_witness:
  "sint (0 :: cint) \<le> 0
   \<and> alpha (StartFade refused 3 120 0 world0) 3 = Some 120
   \<and> timers (StartFade refused 3 120 0 world0) = Map.empty
   \<and> (\<exists>st'. g_anim (StartFade refused 3 120 0 world0) 3 = Some st'
           \<and> \<not> active st' \<and> hTimer st' = None \<and> lastApplied st' = 120)"
proof -
  have h: "sint (0 :: cint) \<le> 0 \<or> lastApplied (anim_at world0 3) = 120"
    by simp
  have "hTimer (anim_at world0 3) = None" and "timers world0 = Map.empty"
    by (simp_all add: anim_at_def world0_def WinAnim_default_def)
  then show ?thesis
    using StartFade_fast_path [OF h, of refused refused] by simp
qed

section \<open>Destroyed windows\<close>

text \<open>
  Claim C1. While the mod is enabled, the hook handles \<open>WM_DESTROY\<close> and
  \<open>WM_NCDESTROY\<close> on the root window of the window addressed (the window itself when
  it has no ancestor): whatever the state of its fade was, afterwards opacity 255 is
  the one applied to it, its translucency bit is cleared and its Animation Record is
  gone from the table; a timer the record held is cancelled.
\<close>

theorem WindowDestroyed_failsafe:
  assumes "g_enabled s" and "msg = WM_DESTROY \<or> msg = WM_NCDESTROY"
    and "rootw = (case root_of s hWnd of None \<Rightarrow> hWnd | Some w \<Rightarrow> w)"
  shows "alpha (DefWindowProcW_Hook r hWnd msg wParam s) rootw = Some 255
         \<and> exstyle (DefWindowProcW_Hook r hWnd msg wParam s) rootw AND WS_EX_LAYERED = 0
         \<and> g_anim (DefWindowProcW_Hook r hWnd msg wParam s) rootw = None
         \<and> (\<forall>st h. g_anim s rootw = Some st \<and> hTimer st = Some h
               \<longrightarrow> timers (DefWindowProcW_Hook r hWnd msg wParam s) h = None)"
proof -
  let ?s1 = "SetLayered rootw False (ApplyAlphaRemember rootw 255 (StopFade rootw False s))"
  have hook: "DefWindowProcW_Hook r hWnd msg wParam s = ?s1\<lparr>g_anim := (g_anim ?s1)(rootw := None)\<rparr>"
    using assms by (auto simp: DefWindowProcW_Hook_def Let_def)
  have a: "alpha ?s1 rootw = Some 255"
    by (simp add: ApplyAlphaRemember_def upd_anim_def SetLayeredWindowAttributes_def SetLayered_eq)
  have b: "exstyle ?s1 rootw AND WS_EX_LAYERED = 0"
    by (simp add: SetLayered_eq layered_clear)
  have c: "timers ?s1 = timers (StopFade rootw False s)"
    by (simp add: ApplyAlphaRemember_def upd_anim_def SetLayeredWindowAttributes_def SetLayered_eq)
  have d: "timers (StopFade rootw False s) h = None"
    if "g_anim s rootw = Some st" "hTimer st = Some h" for st h
    using that
    by (simp add: StopFade_def Let_def upd_anim_def DeleteTimerQueueTimer_def SetLayered_eq)
  show ?thesis
    unfolding hook using a b c d by simp
qed

text \<open>Witness: window 3 is destroyed in the middle of its fade, at opacity 188.\<close>

theorem WindowDestroyed_failsafe_witness:
  "g_enabled mid_fade \<and> alpha mid_fade 3 = Some 188
   \<and> alpha (DefWindowProcW_Hook refused 3 WM_DESTROY 0 mid_fade) 3 = Some 255
   \<and> exstyle (DefWindowProcW_Hook refused 3 WM_DESTROY 0 mid_fade) 3 AND WS_EX_LAYERED = 0
   \<and> g_anim (DefWindowProcW_Hook refused 3 WM_DESTROY 0 mid_fade) 3 = None
   \<and> timers (DefWindowProcW_Hook refused 3 WM_DESTROY 0 mid_fade) 7 = None"
proof -
  have en: "g_enabled mid_fade" and al: "alpha mid_fade 3 = Some 188"
    and ro: "3 = (case root_of mid_fade 3 of None \<Rightarrow> 3 | Some w \<Rightarrow> w)"
    by code_simp+
  show ?thesis
    using en al mid_fade_record
      WindowDestroyed_failsafe [OF en _ ro, of WM_DESTROY refused 0]
    by simp
qed

section \<open>A timer that cannot be created\<close>

text \<open>
  Claim C7, as the code has it. \<open>StartFade\<close> does not look at the result of
  \<open>CreateTimerQueueTimer\<close>. When a fade needs a tick (positive duration, target other
  than the last applied opacity) and the timer is refused, no opacity is applied and
  no tick is scheduled: the window keeps the opacity it had, with the translucency
  bit set, and the record is left active, aimed at the target, with a null tick
  handle.
\<close>

theorem StartFade_timer_refused:
  assumes "timer_reply r = None" and "0 < sint durMs" and "lastApplied (anim_at s hwnd) \<noteq> tgt"
  shows "alpha (StartFade r hwnd tgt durMs s) = alpha s
         \<and> exstyle (StartFade r hwnd tgt durMs s) hwnd AND WS_EX_LAYERED \<noteq> 0
         \<and> (\<exists>st'. g_anim (StartFade r hwnd tgt durMs s) hwnd = Some st'
                 \<and> active st' \<and> hTimer st' = None \<and> targetAlpha st' = tgt
                 \<and> lastApplied st' = lastApplied (anim_at s hwnd))
         \<and> timers (StartFade r hwnd tgt durMs s) =
             (case hTimer (anim_at s hwnd) of None \<Rightarrow> timers s | Some h \<Rightarrow> (timers s)(h := None))"
proof -
  let ?dur = "if sint durMs < 0 then 0 else durMs"
  have slow: "(?dur = 0 \<or> lastApplied (anim_at s hwnd) = tgt) = False"
    using assms by auto
  note defs = ApplyAlphaRemember_def upd_anim_def anim_at_def SetLayeredWindowAttributes_def
          DeleteTimerQueueTimer_def SetLayered_eq WS_EX_LAYERED_nonzero
  show ?thesis
  proof (cases "hTimer (anim_at s hwnd)")
    case None
    then show ?thesis
      unfolding StartFade_def Let_def slow using assms(1)
      by (simp add: defs)
  next
    case (Some h)
    then show ?thesis
      unfolding StartFade_def Let_def slow using assms(1)
      by (simp add: defs)
  qed
qed

text \<open>
  Witness: window 3 rests at the drag opacity 180 and the drag ends; the fade back
  to 255 over 120 ms is refused its timer.
\<close>

theorem StartFade_timer_refused_witness:
  "timer_reply refused = None \<and> 0 < sint (120 :: cint) \<and> lastApplied (anim_at dimmed 3) \<noteq> 255
   \<and> alpha (StartFade refused 3 255 120 dimmed) = alpha dimmed
   \<and> (\<exists>st'. g_anim (StartFade refused 3 255 120 dimmed) 3 = Some st'
           \<and> active st' \<and> hTimer st' = None \<and> targetAlpha st' = 255 \<and> lastApplied st' = 180)"
proof -
  have h1: "timer_reply refused = None"
    by (simp add: refused_def)
  have h2: "0 < sint (120 :: cint)"
    by simp
  have la: "lastApplied (anim_at dimmed 3) = 180"
    by (simp add: anim_at_def dimmed_record)
  then have h3: "lastApplied (anim_at dimmed 3) \<noteq> 255"
    by simp
  show ?thesis
    using h1 h2 h3 la StartFade_timer_refused [OF h1 h2 h3] by simp
qed

text \<open>
  The claim as the specification states it fails there: the target 255 is not
  applied, the window stays at opacity 180 and nothing is left to complete the fade.
\<close>

theorem StartFade_timer_refused_counterexample:
  "timer_reply refused = None
   \<and> alpha (StartFade refused 3 255 120 dimmed) 3 = Some 180
   \<and> alpha (StartFade refused 3 255 120 dimmed) 3 \<noteq> Some 255
   \<and> g_anim (StartFade refused 3 255 120 dimmed) 3 =
       Some \<lparr>active = True, startAlpha = 180, targetAlpha = 255, startTick = 120,
             durationMs = 120, lastApplied = 180, hTimer = None\<rparr>
   \<and> timers (StartFade refused 3 255 120 dimmed) 7 = None"
  by code_simp

section \<open>The tick handle and the active flag\<close>

lemma handle_iff_active_start:
  assumes "handle_iff_active s" and "timer_reply r \<noteq> None"
  shows "handle_iff_active (StartFade r hwnd tgt durMs s)"
  using assms unfolding handle_iff_active_def
  by (auto simp: ops_defs split: option.splits if_splits)

lemma handle_iff_active_tick:
  assumes "handle_iff_active s"
  shows "handle_iff_active (FadeTickCb hwnd s)"
  using assms unfolding handle_iff_active_def
  by (auto simp: ops_defs split: option.splits if_splits)

lemma handle_iff_active_stop:
  assumes "handle_iff_active s"
  shows "handle_iff_active (StopFade hwnd force s)"
  using assms unfolding handle_iff_active_def
  by (auto simp: ops_defs split: option.splits if_splits)

text \<open>
  Claim C6, as the code has it. In every state that \<open>StartFade\<close>, ticks and
  \<open>StopFade\<close> reach while every timer asked for is granted, each record has a tick
  handle exactly when it is active.
\<close>

theorem reachable_granted_handle_iff_active:
  assumes "reachable_granted s"
  shows "handle_iff_active s"
  using assms unfolding reachable_granted_def
proof (induction rule: reach.induct)
  case (reach_init s)
  then show ?case by (simp add: handle_iff_active_def)
next
  case (reach_start s r hwnd tgt durMs)
  then show ?case by (simp add: handle_iff_active_start)
next
  case (reach_tick s hwnd)
  then show ?case by (simp add: handle_iff_active_tick)
next
  case (reach_stop s hwnd forceToTarget)
  then show ?case by (simp add: handle_iff_active_stop)
next
  case (reach_env s now alive)
  then show ?case by (simp add: handle_iff_active_def)
qed

text \<open>Witness: the state halfway through the fade of window 3 is such a state.\<close>

theorem reachable_granted_handle_iff_active_witness:
  "reachable_granted mid_fade \<and> handle_iff_active mid_fade"
proof -
  let ?s = "StartFade (granted 7) 3 120 100 world0"
  have "reach (\<lambda>r. timer_reply r \<noteq> None) world0"
    by (rule reach_init) (simp add: world0_def)
  then have "reach (\<lambda>r. timer_reply r \<noteq> None) ?s"
    by (rule reach_start) (simp add: granted_def)
  then have "reach (\<lambda>r. timer_reply r \<noteq> None) (?s\<lparr>tick_count := 50, is_window := is_window ?s\<rparr>)"
    by (rule reach_env)
  then have "reach (\<lambda>r. timer_reply r \<noteq> None) (?s\<lparr>tick_count := 50\<rparr>)"
    by simp
  then have "reach (\<lambda>r. timer_reply r \<noteq> None) (FadeTickCb 3 (?s\<lparr>tick_count := 50\<rparr>))"
    by (rule reach_tick)
  then have r: "reachable_granted mid_fade"
    by (simp add: reachable_granted_def mid_fade_def)
  show ?thesis
    using r reachable_granted_handle_iff_active [OF r] by simp
qed

text \<open>
  The invariant as the specification states it, over every run, fails: one
  \<open>StartFade\<close> whose timer is refused leaves the record of window 3 active with a null
  tick handle.
\<close>

theorem handle_iff_active_counterexample:
  "reachable (StartFade refused 3 120 100 world0)
   \<and> g_anim (StartFade refused 3 120 100 world0) 3 =
       Some \<lparr>active = True, startAlpha = 255, targetAlpha = 120, startTick = 0,
             durationMs = 100, lastApplied = 255, hTimer = None\<rparr>
   \<and> \<not> handle_iff_active (StartFade refused 3 120 100 world0)"
proof -
  have "reach (\<lambda>r. True) world0"
    by (rule reach_init) (simp add: world0_def)
  then have "reach (\<lambda>r. True) (StartFade refused 3 120 100 world0)"
    by (rule reach_start) simp
  then have r: "reachable (StartFade refused 3 120 100 world0)"
    by (simp add: reachable_def)
  have g: "g_anim (StartFade refused 3 120 100 world0) 3 =
       Some \<lparr>active = True, startAlpha = 255, targetAlpha = 120, startTick = 0,
             durationMs = 100, lastApplied = 255, hTimer = None\<rparr>"
    by code_simp
  have "\<not> handle_iff_active (StartFade refused 3 120 100 world0)"
  proof
    assume "handle_iff_active (StartFade refused 3 120 100 world0)"
    then have "hTimer st \<noteq> None \<longleftrightarrow> active st"
      if "g_anim (StartFade refused 3 120 100 world0) 3 = Some st" for st
      using that unfolding handle_iff_active_def by blast
    from this [OF g] show False by simp
  qed
  with r g show ?thesis by simp
qed

end
